theory Spec2Isabelle
  imports Complex_Main "HOL-Library.Sublist"
begin

section \<open>Python values, exceptions and the file system\<close>

text \<open>
  The service in \<^verbatim>\<open>main.py\<close> is a thin layer over three collaborators imported from
  \<^verbatim>\<open>create_map_poster\<close>: \<^verbatim>\<open>load_theme\<close>, \<^verbatim>\<open>get_coordinates\<close> and \<^verbatim>\<open>create_poster\<close>.
  The collaborators are parameters of the model; the two handlers and the parameter
  declarations of their signatures are embedded as they are written.

  A Python string is the list of its code points, so that text outside Latin-1 can be
  written; \<open>lit\<close> turns a literal of the theory into such a string. The content of a
  file is a list of bytes. Theme descriptors and the body of the preview response are
  Python values: \<^verbatim>\<open>None\<close>, strings, numbers and dictionaries (association lists, looked
  up from the left).
\<close>

type_synonym pystr = "nat list"

type_synonym bytes = "nat list"

definition lit :: "string \<Rightarrow> pystr" where
  "lit s = map of_char s"

datatype pyval =
    PyNone
  | PyStr pystr
  | PyInt int
  | PyFloat real
  | PyDict "(pystr \<times> pyval) list"

text \<open>Truth value testing, as \<^verbatim>\<open>not theme_data\<close> uses it.\<close>

fun truthy :: "pyval \<Rightarrow> bool" where
  "truthy PyNone = False"
| "truthy (PyStr s) = (s \<noteq> [])"
| "truthy (PyInt n) = (n \<noteq> 0)"
| "truthy (PyFloat x) = (x \<noteq> 0)"
| "truthy (PyDict kvs) = (kvs \<noteq> [])"

text \<open>
  Exceptions derived from \<^verbatim>\<open>Exception\<close>, each with its \<^verbatim>\<open>str(e)\<close>. \<^verbatim>\<open>ValueError\<close> (the
  class and its subclasses, \<^verbatim>\<open>UnicodeEncodeError\<close> among them) and FastAPI's
  \<^verbatim>\<open>HTTPException\<close> are the two classes the handlers name; every other class is
  \<open>OtherException\<close> with its class name and message. System-exiting exceptions
  (\<^verbatim>\<open>KeyboardInterrupt\<close>, \<^verbatim>\<open>SystemExit\<close>) are not derived from \<^verbatim>\<open>Exception\<close> and are
  outside the model.
\<close>

datatype exn =
    ValueError pystr
  | HTTPException nat pystr
  | OtherException string pystr

type_synonym fs = "pystr \<rightharpoonup> bytes"

type_synonym coordinates = "real \<times> real"

text \<open>The keyword arguments of the call to \<^verbatim>\<open>create_poster\<close> (lines 87 to 98).\<close>

record poster_args =
  p_city :: pystr
  p_country :: pystr
  point :: coordinates
  dist :: int
  output_file :: pystr
  output_format :: pystr
  p_width :: int
  p_height :: int
  p_display_city :: "pystr option"
  p_display_country :: "pystr option"

text \<open>
  The collaborators, the operating system and the parts of the Python runtime that are
  tables rather than code.
  \<^item> \<open>load_theme\<close> and \<open>get_coordinates\<close> return a value or raise.
  \<^item> \<open>create_poster\<close> may change the file system in any way and may raise.
  \<^item> \<open>named_temporary_file\<close> picks the path of the new temporary file, or raises
    before a file is made.
  \<^item> \<open>close_fault\<close>, \<open>read_fault\<close> and \<open>unlink_fault\<close> are the failures of the operating
    system when an existing file is closed, read or removed; \<open>print_fault\<close> is the
    failure of \<^verbatim>\<open>print\<close> for a line of text.
  \<^item> \<open>str_http_exception\<close> is \<^verbatim>\<open>str(e)\<close> of an \<^verbatim>\<open>HTTPException\<close> with the given status
    code and detail, which depends on the version of the web framework.
  \<^item> \<open>unicode_lower\<close> is \<^verbatim>\<open>str.lower()\<close> and \<open>unicode_repr\<close> is \<^verbatim>\<open>repr\<close> on the strings for
    which they need the Unicode character database.
\<close>

record env =
  load_theme :: "pystr \<Rightarrow> exn + pyval"
  get_coordinates :: "pystr \<Rightarrow> pystr \<Rightarrow> exn + coordinates"
  create_poster :: "poster_args \<Rightarrow> fs \<Rightarrow> exn option \<times> fs"
  named_temporary_file :: "fs \<Rightarrow> exn + pystr"
  close_fault :: "pystr \<Rightarrow> exn option"
  read_fault :: "pystr \<Rightarrow> exn option"
  unlink_fault :: "pystr \<Rightarrow> exn option"
  print_fault :: "pystr \<Rightarrow> exn option"
  str_http_exception :: "nat \<Rightarrow> pystr \<Rightarrow> pystr"
  unicode_lower :: "pystr \<Rightarrow> pystr"
  unicode_repr :: "pystr \<Rightarrow> pystr"

text \<open>\<^verbatim>\<open>str(e)\<close>: the message of the exception.\<close>

fun str_exn :: "env \<Rightarrow> exn \<Rightarrow> pystr" where
  "str_exn E (ValueError m) = m"
| "str_exn E (HTTPException code detail) = str_http_exception E code detail"
| "str_exn E (OtherException cls m) = m"

text \<open>
  The observable state: the files that exist, and the collaborator calls made so far,
  oldest first.
\<close>

datatype call =
    LoadTheme pystr
  | GetCoordinates pystr pystr
  | CreatePoster poster_args

record state =
  files :: fs
  calls :: "call list"

definition log_call :: "call \<Rightarrow> state \<Rightarrow> state" where
  "log_call c s = s\<lparr>calls := calls s @ [c]\<rparr>"

subsection \<open>Strings\<close>

text \<open>
  \<^verbatim>\<open>str.lower()\<close>. On a string of ASCII characters it changes the letters A to Z and
  nothing else; on any other string the result comes from the Unicode tables.
\<close>

definition ascii_lower :: "nat \<Rightarrow> nat" where
  "ascii_lower c = (if 65 \<le> c \<and> c \<le> 90 then c + 32 else c)"

definition lower :: "env \<Rightarrow> pystr \<Rightarrow> pystr" where
  "lower E s =
     (if list_all (\<lambda>c. c < 128) s then map ascii_lower s else unicode_lower E s)"

text \<open>
  \<^verbatim>\<open>repr\<close> of a string. A string of printable ASCII characters without quote and
  backslash is put between single quotes; any other string needs escapes and the
  Unicode tables.
\<close>

definition repr_str :: "env \<Rightarrow> pystr \<Rightarrow> pystr" where
  "repr_str E s =
     (if list_all (\<lambda>c. 32 \<le> c \<and> c < 127 \<and> c \<noteq> 39 \<and> c \<noteq> 92) s
      then [39] @ s @ [39]
      else unicode_repr E s)"

text \<open>Decimal and hexadecimal digits, as \<^verbatim>\<open>%d\<close>, \<^verbatim>\<open>%02x\<close>, \<^verbatim>\<open>%04x\<close> and \<^verbatim>\<open>%08x\<close> print them.\<close>

fun str_nat :: "nat \<Rightarrow> pystr" where
  "str_nat n =
     (if n < 10 then [48 + n]
      else str_nat (n div 10) @ [48 + n mod 10])"

declare str_nat.simps [simp del]

definition hex_digit :: "nat \<Rightarrow> nat" where
  "hex_digit d = (if d < 10 then 48 + d else 87 + d)"

definition hex2 :: "nat \<Rightarrow> pystr" where
  "hex2 n = [hex_digit (n div 16 mod 16), hex_digit (n mod 16)]"

definition hex4 :: "nat \<Rightarrow> pystr" where
  "hex4 n = hex2 (n div 256) @ hex2 n"

definition hex8 :: "nat \<Rightarrow> pystr" where
  "hex8 n = hex4 (n div 65536) @ hex4 n"

text \<open>
  \<^verbatim>\<open>s.encode("latin-1")\<close>. The codec stops at the first character it cannot encode and
  reports the whole run of such characters that starts there: one character by its
  escape and position, a longer run by its first and last position.
\<close>

definition escape_char :: "nat \<Rightarrow> pystr" where
  "escape_char c =
     (if c \<le> 255 then [92, 120] @ hex2 c
      else if c \<le> 65535 then [92, 117] @ hex4 c
      else [92, 85] @ hex8 c)"

definition latin_1_error :: "pystr \<Rightarrow> pystr" where
  "latin_1_error s =
     (let start = length (takeWhile (\<lambda>c. c < 256) s);
          run = takeWhile (\<lambda>c. \<not> c < 256) (drop start s)
      in case run of
           [c] \<Rightarrow>
             [39] @ lit ''latin-1'' @ [39] @ lit '' codec can't encode character ''
               @ [39] @ escape_char c @ [39] @ lit '' in position '' @ str_nat start
               @ lit '': ordinal not in range(256)''
         | _ \<Rightarrow>
             [39] @ lit ''latin-1'' @ [39] @ lit '' codec can't encode characters in position ''
               @ str_nat start @ lit ''-'' @ str_nat (start + length run - 1)
               @ lit '': ordinal not in range(256)'')"

definition encode_latin_1 :: "pystr \<Rightarrow> exn + bytes" where
  "encode_latin_1 s =
     (if list_all (\<lambda>c. c < 256) s then Inr s else Inl (ValueError (latin_1_error s)))"

subsection \<open>Files and standard output\<close>

text \<open>
  \<^verbatim>\<open>str(e)\<close> of the \<^verbatim>\<open>FileNotFoundError\<close> that \<^verbatim>\<open>open\<close> and \<^verbatim>\<open>os.unlink\<close> raise for a path
  that does not exist.
\<close>

definition file_not_found :: "env \<Rightarrow> pystr \<Rightarrow> exn" where
  "file_not_found E path =
     OtherException ''FileNotFoundError''
       (lit ''[Errno 2] No such file or directory: '' @ repr_str E path)"

text \<open>\<^verbatim>\<open>open(path, "rb").read()\<close> and \<^verbatim>\<open>os.unlink(path)\<close>.\<close>

definition read_file :: "env \<Rightarrow> pystr \<Rightarrow> fs \<Rightarrow> exn + bytes" where
  "read_file E path fls =
     (case fls path of
        None \<Rightarrow> Inl (file_not_found E path)
      | Some data \<Rightarrow>
          (case read_fault E path of
             Some e \<Rightarrow> Inl e
           | None \<Rightarrow> Inr data))"

definition unlink :: "env \<Rightarrow> pystr \<Rightarrow> fs \<Rightarrow> exn + fs" where
  "unlink E path fls =
     (case fls path of
        None \<Rightarrow> Inl (file_not_found E path)
      | Some data \<Rightarrow>
          (case unlink_fault E path of
             Some e \<Rightarrow> Inl e
           | None \<Rightarrow> Inr (fls(path := None))))"

section \<open>The parameter boundary\<close>

text \<open>
  The query string after the framework has split it and converted the integer
  parameters: \<open>None\<close> is a parameter the request omits. Values that are not integers
  are refused by the framework before any bound is looked at and are not modelled.
\<close>

record generate_query =
  q_city :: "pystr option"
  q_country :: "pystr option"
  q_theme :: "pystr option"
  q_distance :: "int option"
  q_display_city :: "pystr option"
  q_display_country :: "pystr option"
  q_width :: "int option"
  q_height :: "int option"

record preview_query =
  pq_city :: "pystr option"
  pq_country :: "pystr option"
  pq_theme :: "pystr option"

datatype validation_error =
    Missing string
  | GreaterThanEqual string int
  | LessThanEqual string int

text \<open>
  \<^verbatim>\<open>Query(...)\<close> is a required parameter, \<^verbatim>\<open>Query(default)\<close> an optional one, and
  \<^verbatim>\<open>Query(default, ge=lo, le=hi)\<close> an optional integer that must lie between the bounds
  when the request gives it. An optional parameter declared \<^verbatim>\<open>Query(None)\<close> is the
  option itself.
\<close>

definition query_required :: "string \<Rightarrow> 'a option \<Rightarrow> validation_error + 'a" where
  "query_required name v = (case v of None \<Rightarrow> Inl (Missing name) | Some x \<Rightarrow> Inr x)"

definition query_default :: "'a \<Rightarrow> 'a option \<Rightarrow> 'a" where
  "query_default d v = (case v of None \<Rightarrow> d | Some x \<Rightarrow> x)"

definition query_int :: "string \<Rightarrow> int \<Rightarrow> int \<Rightarrow> int \<Rightarrow> int option \<Rightarrow> validation_error + int" where
  "query_int name d lo hi v =
     (case v of
        None \<Rightarrow> Inr d
      | Some n \<Rightarrow>
          if n < lo then Inl (GreaterThanEqual name lo)
          else if hi < n then Inl (LessThanEqual name hi)
          else Inr n)"

text \<open>The parameters of \<^verbatim>\<open>generate_poster\<close> (lines 57 to 66), once accepted.\<close>

record generate_request =
  city :: pystr
  country :: pystr
  theme :: pystr
  distance :: int
  display_city :: "pystr option"
  display_country :: "pystr option"
  width :: int
  height :: int

definition generate_params :: "generate_query \<Rightarrow> validation_error + generate_request" where
  "generate_params q =
     (case query_required ''city'' (q_city q) of Inl e \<Rightarrow> Inl e | Inr c \<Rightarrow>
      case query_required ''country'' (q_country q) of Inl e \<Rightarrow> Inl e | Inr k \<Rightarrow>
      case query_int ''distance'' 5000 1000 20000 (q_distance q) of Inl e \<Rightarrow> Inl e | Inr d \<Rightarrow>
      case query_int ''width'' 12 6 24 (q_width q) of Inl e \<Rightarrow> Inl e | Inr w \<Rightarrow>
      case query_int ''height'' 16 8 32 (q_height q) of Inl e \<Rightarrow> Inl e | Inr h \<Rightarrow>
        Inr \<lparr>city = c, country = k,
             theme = query_default (lit ''noir'') (q_theme q),
             distance = d,
             display_city = q_display_city q,
             display_country = q_display_country q,
             width = w, height = h\<rparr>)"

definition preview_params :: "preview_query \<Rightarrow> validation_error + pystr \<times> pystr \<times> pystr" where
  "preview_params q =
     (case query_required ''city'' (pq_city q) of Inl e \<Rightarrow> Inl e | Inr c \<Rightarrow>
      case query_required ''country'' (pq_country q) of Inl e \<Rightarrow> Inl e | Inr k \<Rightarrow>
        Inr (c, k, query_default (lit ''noir'') (pq_theme q)))"

section \<open>The handlers\<close>

record streaming_response =
  body :: bytes
  media_type :: pystr
  headers :: "(pystr \<times> pystr) list"

text \<open>
  The constructor of \<^verbatim>\<open>StreamingResponse\<close> keeps the content and the media type and
  encodes the headers: for each header, first the lowercased name and then the value,
  both as Latin-1.
\<close>

fun init_headers :: "env \<Rightarrow> (pystr \<times> pystr) list \<Rightarrow> exn option" where
  "init_headers E [] = None"
| "init_headers E ((k, v) # hs) =
     (case encode_latin_1 (lower E k) of
        Inl e \<Rightarrow> Some e
      | Inr raw_k \<Rightarrow>
          (case encode_latin_1 v of
             Inl e \<Rightarrow> Some e
           | Inr raw_v \<Rightarrow> init_headers E hs))"

definition new_streaming_response ::
    "env \<Rightarrow> bytes \<Rightarrow> pystr \<Rightarrow> (pystr \<times> pystr) list \<Rightarrow> exn + streaming_response" where
  "new_streaming_response E content mt hs =
     (case init_headers E hs of
        Some e \<Rightarrow> Inl e
      | None \<Rightarrow> Inr \<lparr>body = content, media_type = mt, headers = hs\<rparr>)"

text \<open>The pieces of text the handler builds (lines 76, 79 and 112).\<close>

definition theme_not_found :: "generate_request \<Rightarrow> exn" where
  "theme_not_found r =
     HTTPException 400 (lit ''Theme '' @ [39] @ theme r @ [39] @ lit '' not found'')"

definition lookup_line :: "generate_request \<Rightarrow> pystr" where
  "lookup_line r =
     lit ''Looking up coordinates for '' @ city r @ lit '', '' @ country r @ lit ''...''"

definition content_disposition :: "env \<Rightarrow> generate_request \<Rightarrow> pystr" where
  "content_disposition E r =
     lit ''attachment; filename='' @ lower E (city r) @ lit ''_'' @ theme r
       @ lit ''_poster.png''"

text \<open>The keyword arguments as the handler fills them in.\<close>

definition poster_call_args :: "generate_request \<Rightarrow> coordinates \<Rightarrow> pystr \<Rightarrow> poster_args" where
  "poster_call_args r coords output_path =
     \<lparr>p_city = city r, p_country = country r, point = coords,
      dist = distance r, output_file = output_path, output_format = lit ''png'',
      p_width = width r, p_height = height r,
      p_display_city = display_city r, p_display_country = display_country r\<rparr>"

text \<open>
  Lines 83 to 114 of \<^verbatim>\<open>generate_poster\<close>, from the temporary file to the response. The
  \<^verbatim>\<open>with\<close> block of line 83 creates the temporary file empty and closes it; the file
  stays, since it is opened with \<^verbatim>\<open>delete=False\<close>.
\<close>

definition generate_image ::
    "env \<Rightarrow> generate_request \<Rightarrow> coordinates \<Rightarrow> state \<Rightarrow> (exn + streaming_response) \<times> state" where
  "generate_image E r coords s2 =
     (case named_temporary_file E (files s2) of
        Inl e \<Rightarrow> (Inl e, s2)
      | Inr output_path \<Rightarrow>
          (let s3 = s2\<lparr>files := (files s2)(output_path \<mapsto> [])\<rparr> in
           case close_fault E output_path of
             Some e \<Rightarrow> (Inl e, s3)
           | None \<Rightarrow>
               (let args = poster_call_args r coords output_path;
                    s4 = log_call (CreatePoster args) s3;
                    rendered = create_poster E args (files s4);
                    s5 = s4\<lparr>files := snd rendered\<rparr>
                in case fst rendered of
                     Some e \<Rightarrow> (Inl e, s5)
                   | None \<Rightarrow>
                       (case read_file E output_path (files s5) of
                          Inl e \<Rightarrow> (Inl e, s5)
                        | Inr image_data \<Rightarrow>
                            (case unlink E output_path (files s5) of
                               Inl e \<Rightarrow> (Inl e, s5)
                             | Inr fls \<Rightarrow>
                                 (case new_streaming_response E image_data (lit ''image/png'')
                                         [(lit ''Content-Disposition'', content_disposition E r)] of
                                    Inl e \<Rightarrow> (Inl e, s5\<lparr>files := fls\<rparr>)
                                  | Inr resp \<Rightarrow> (Inr resp, s5\<lparr>files := fls\<rparr>)))))))"

text \<open>
  The body of the \<^verbatim>\<open>try\<close> statement of \<^verbatim>\<open>generate_poster\<close> (lines 73 to 114). The
  descriptor that \<^verbatim>\<open>load_theme\<close> returns is only tested, not passed on. What \<^verbatim>\<open>print\<close>
  writes is not kept; that it can fail is.
\<close>

definition generate_body :: "env \<Rightarrow> generate_request \<Rightarrow> state \<Rightarrow> (exn + streaming_response) \<times> state" where
  "generate_body E r s0 =
     (let s1 = log_call (LoadTheme (theme r)) s0 in
      case load_theme E (theme r) of
        Inl e \<Rightarrow> (Inl e, s1)
      | Inr theme_data \<Rightarrow>
          if \<not> truthy theme_data then (Inl (theme_not_found r), s1)
          else
            (case print_fault E (lookup_line r) of
               Some e \<Rightarrow> (Inl e, s1)
             | None \<Rightarrow>
                 (let s2 = log_call (GetCoordinates (city r) (country r)) s1 in
                  case get_coordinates E (city r) (country r) of
                    Inl e \<Rightarrow> (Inl e, s2)
                  | Inr coords \<Rightarrow> generate_image E r coords s2)))"

text \<open>
  The two handlers of \<^verbatim>\<open>generate_poster\<close>, \<^verbatim>\<open>except ValueError\<close> first and
  \<^verbatim>\<open>except Exception\<close> second (lines 116 to 119): the exception each of them raises.
\<close>

definition generate_except :: "env \<Rightarrow> exn \<Rightarrow> exn" where
  "generate_except E e =
     (case e of
        ValueError m \<Rightarrow> HTTPException 400 (str_exn E e)
      | _ \<Rightarrow> HTTPException 500 (lit ''Error generating poster: '' @ str_exn E e))"

definition generate_poster :: "env \<Rightarrow> generate_request \<Rightarrow> state \<Rightarrow> (exn + streaming_response) \<times> state" where
  "generate_poster E r s =
     (case generate_body E r s of
        (Inl e, s') \<Rightarrow> (Inl (generate_except E e), s')
      | (Inr resp, s') \<Rightarrow> (Inr resp, s'))"

text \<open>\<^verbatim>\<open>theme_data.get("description", "")\<close>: only a dictionary has the method.\<close>

fun type_name :: "pyval \<Rightarrow> string" where
  "type_name PyNone = ''NoneType''"
| "type_name (PyStr s) = ''str''"
| "type_name (PyInt n) = ''int''"
| "type_name (PyFloat x) = ''float''"
| "type_name (PyDict kvs) = ''dict''"

definition get_description :: "pyval \<Rightarrow> exn + pyval" where
  "get_description theme_data =
     (case theme_data of
        PyDict kvs \<Rightarrow>
          Inr (case map_of kvs (lit ''description'') of None \<Rightarrow> PyStr [] | Some v \<Rightarrow> v)
      | _ \<Rightarrow>
          Inl (OtherException ''AttributeError''
                 ([39] @ lit (type_name theme_data) @ [39]
                    @ lit '' object has no attribute '' @ [39] @ lit ''get'' @ [39])))"

text \<open>The body of the \<^verbatim>\<open>try\<close> statement of \<^verbatim>\<open>preview_poster\<close> (lines 134 to 148).\<close>

definition preview_body :: "env \<Rightarrow> pystr \<Rightarrow> pystr \<Rightarrow> pystr \<Rightarrow> state \<Rightarrow> (exn + pyval) \<times> state" where
  "preview_body E c k t s0 =
     (let s1 = log_call (GetCoordinates c k) s0 in
      case get_coordinates E c k of
        Inl e \<Rightarrow> (Inl e, s1)
      | Inr coords \<Rightarrow>
          (let s2 = log_call (LoadTheme t) s1 in
           case load_theme E t of
             Inl e \<Rightarrow> (Inl e, s2)
           | Inr theme_data \<Rightarrow>
               (case get_description theme_data of
                  Inl e \<Rightarrow> (Inl e, s2)
                | Inr d \<Rightarrow>
                    (Inr (PyDict
                       [(lit ''city'', PyStr c),
                        (lit ''country'', PyStr k),
                        (lit ''coordinates'', PyDict
                           [(lit ''latitude'', PyFloat (fst coords)),
                            (lit ''longitude'', PyFloat (snd coords))]),
                        (lit ''theme'', PyDict
                           [(lit ''name'', PyStr t),
                            (lit ''description'', d)])]),
                     s2))))"

text \<open>
  The only handler of \<^verbatim>\<open>preview_poster\<close>, \<^verbatim>\<open>except ValueError\<close> (lines 149 and 150).
  Any other exception leaves the function as it is.
\<close>

definition preview_except :: "env \<Rightarrow> exn \<Rightarrow> exn" where
  "preview_except E e =
     (case e of
        ValueError m \<Rightarrow> HTTPException 400 (str_exn E e)
      | _ \<Rightarrow> e)"

definition preview_poster :: "env \<Rightarrow> pystr \<Rightarrow> pystr \<Rightarrow> pystr \<Rightarrow> state \<Rightarrow> (exn + pyval) \<times> state" where
  "preview_poster E c k t s =
     (case preview_body E c k t s of
        (Inl e, s') \<Rightarrow> (Inl (preview_except E e), s')
      | (Inr resp, s') \<Rightarrow> (Inr resp, s'))"

section \<open>The routes\<close>

text \<open>
  A route checks the query parameters against the declarations of the handler's
  signature and calls the handler only when all of them are accepted.
\<close>

datatype 'a reply =
    Rejected validation_error
  | Raised exn
  | Returned 'a

definition reply_of :: "exn + 'a \<Rightarrow> 'a reply" where
  "reply_of x = (case x of Inl e \<Rightarrow> Raised e | Inr v \<Rightarrow> Returned v)"

definition generate_route :: "env \<Rightarrow> generate_query \<Rightarrow> state \<Rightarrow> streaming_response reply \<times> state" where
  "generate_route E q s =
     (case generate_params q of
        Inl err \<Rightarrow> (Rejected err, s)
      | Inr r \<Rightarrow> (case generate_poster E r s of (out, s') \<Rightarrow> (reply_of out, s')))"

definition preview_route :: "env \<Rightarrow> preview_query \<Rightarrow> state \<Rightarrow> pyval reply \<times> state" where
  "preview_route E q s =
     (case preview_params q of
        Inl err \<Rightarrow> (Rejected err, s)
      | Inr (c, k, t) \<Rightarrow> (case preview_poster E c k t s of (out, s') \<Rightarrow> (reply_of out, s')))"

section \<open>A concrete deployment\<close>

text \<open>
  A theme store that knows the theme \<^verbatim>\<open>noir\<close> and returns \<^verbatim>\<open>None\<close> for every other
  name, a geocoder that knows Taipei under its Latin and its Chinese name (the code
  points 21488 and 21271), a renderer that writes the image to the path it is given,
  and an operating system without failures. \<^verbatim>\<open>str(e)\<close> of an \<^verbatim>\<open>HTTPException\<close> is the
  status code, a colon and the detail, as the current framework prints it. Outside
  ASCII, \<^verbatim>\<open>str.lower()\<close> is given for the capital letters of Latin-1 and for characters
  without case, and \<^verbatim>\<open>repr\<close> for strings it does not escape.
\<close>

definition taipei_env :: env where
  "taipei_env =
     \<lparr>load_theme = (\<lambda>name.
          if name = lit ''noir''
          then Inr (PyDict [(lit ''name'', PyStr (lit ''Noir'')),
                            (lit ''description'',
                               PyStr (lit ''Pure black background with white roads''))])
          else Inr PyNone),
      get_coordinates = (\<lambda>c k.
          if (c = lit ''Taipei'' \<or> c = [21488, 21271]) \<and> k = lit ''Taiwan''
          then Inr (25, 121.5)
          else Inl (ValueError (lit ''Could not find coordinates for '' @ c @ lit '', '' @ k))),
      create_poster = (\<lambda>a fls. (None, fls(output_file a \<mapsto> [137, 80, 78, 71]))),
      named_temporary_file = (\<lambda>fls. Inr (lit ''/tmp/tmpa1b2c3.png'')),
      close_fault = (\<lambda>path. None),
      read_fault = (\<lambda>path. None),
      unlink_fault = (\<lambda>path. None),
      print_fault = (\<lambda>line. None),
      str_http_exception = (\<lambda>code detail. str_nat code @ lit '': '' @ detail),
      unicode_lower = map (\<lambda>c. if (65 \<le> c \<and> c \<le> 90) \<or> (192 \<le> c \<and> c \<le> 222 \<and> c \<noteq> 215)
                                then c + 32 else c),
      unicode_repr = (\<lambda>s. [39] @ s @ [39])\<rparr>"

text \<open>The same deployment with a renderer that raises before it writes anything.\<close>

definition failing_renderer_env :: env where
  "failing_renderer_env =
     taipei_env\<lparr>create_poster :=
       (\<lambda>a fls. (Some (OtherException ''RuntimeError'' (lit ''render failed'')), fls))\<rparr>"

definition taipei_request :: "pystr \<Rightarrow> generate_request" where
  "taipei_request t =
     \<lparr>city = lit ''Taipei'', country = lit ''Taiwan'', theme = t, distance = 5000,
      display_city = None, display_country = None, width = 12, height = 16\<rparr>"


definition empty_state :: state where
  "empty_state = \<lparr>files = Map.empty, calls = []\<rparr>"

text \<open>The collaborator a logged call went to.\<close>

fun call_name :: "call \<Rightarrow> string" where
  "call_name (LoadTheme t) = ''load_theme''"
| "call_name (GetCoordinates c k) = ''get_coordinates''"
| "call_name (CreatePoster a) = ''create_poster''"

text \<open>The calls a request made: what the log of the state after it adds to the log before.\<close>

definition new_calls :: "state \<Rightarrow> state \<Rightarrow> call list" where
  "new_calls s s' = drop (length (calls s)) (calls s')"

section \<open>The parameter boundary: defaults and bounds\<close>

lemma generate_params_accepted:
  assumes "generate_params q = Inr r"
  shows "theme r = query_default (lit ''noir'') (q_theme q)"
    and "query_int ''distance'' 5000 1000 20000 (q_distance q) = Inr (distance r)"
    and "query_int ''width'' 12 6 24 (q_width q) = Inr (width r)"
    and "query_int ''height'' 16 8 32 (q_height q) = Inr (height r)"
    and "display_city r = q_display_city q"
    and "display_country r = q_display_country q"
  using assms
  by (auto simp: generate_params_def split: sum.splits)

lemma query_int_omitted: "query_int name d lo hi None = Inr d"
  by (simp add: query_int_def)

text \<open>
  C9. A /generate request that gives only city and country is accepted with theme
  \<^verbatim>\<open>noir\<close>, distance 5000, width 12, height 16 and no display names, and in any accepted
  request each omitted optional parameter has that default; a /preview request that
  omits the theme is accepted with theme \<^verbatim>\<open>noir\<close>.
\<close>

theorem omitted_parameters_take_defaults:
  "generate_params
      \<lparr>q_city = Some c, q_country = Some k, q_theme = None, q_distance = None,
       q_display_city = None, q_display_country = None, q_width = None, q_height = None\<rparr>
     = Inr \<lparr>city = c, country = k, theme = lit ''noir'', distance = 5000,
            display_city = None, display_country = None, width = 12, height = 16\<rparr>
   \<and> (generate_params q = Inr r \<longrightarrow>
         (q_theme q = None \<longrightarrow> theme r = lit ''noir'')
       \<and> (q_distance q = None \<longrightarrow> distance r = 5000)
       \<and> (q_width q = None \<longrightarrow> width r = 12)
       \<and> (q_height q = None \<longrightarrow> height r = 16)
       \<and> (q_display_city q = None \<longrightarrow> display_city r = None)
       \<and> (q_display_country q = None \<longrightarrow> display_country r = None))
   \<and> preview_params \<lparr>pq_city = Some c', pq_country = Some k', pq_theme = None\<rparr>
     = Inr (c', k', lit ''noir'')"
proof (intro conjI impI)
  show "generate_params
      \<lparr>q_city = Some c, q_country = Some k, q_theme = None, q_distance = None,
       q_display_city = None, q_display_country = None, q_width = None, q_height = None\<rparr>
     = Inr \<lparr>city = c, country = k, theme = lit ''noir'', distance = 5000,
            display_city = None, display_country = None, width = 12, height = 16\<rparr>"
    by (simp add: generate_params_def query_required_def query_int_def query_default_def)
  show "preview_params \<lparr>pq_city = Some c', pq_country = Some k', pq_theme = None\<rparr>
     = Inr (c', k', lit ''noir'')"
    by (simp add: preview_params_def query_required_def query_default_def)
next
  assume "generate_params q = Inr r" "q_theme q = None"
  then show "theme r = lit ''noir''"
    by (simp add: generate_params_accepted(1) query_default_def)
next
  assume "generate_params q = Inr r" "q_distance q = None"
  then show "distance r = 5000"
    using generate_params_accepted(2) [of q r] by (simp add: query_int_omitted)
next
  assume "generate_params q = Inr r" "q_width q = None"
  then show "width r = 12"
    using generate_params_accepted(3) [of q r] by (simp add: query_int_omitted)
next
  assume "generate_params q = Inr r" "q_height q = None"
  then show "height r = 16"
    using generate_params_accepted(4) [of q r] by (simp add: query_int_omitted)
next
  assume "generate_params q = Inr r" "q_display_city q = None"
  then show "display_city r = None"
    by (simp add: generate_params_accepted(5))
next
  assume "generate_params q = Inr r" "q_display_country q = None"
  then show "display_country r = None"
    by (simp add: generate_params_accepted(6))
qed

theorem omitted_parameters_take_defaults_witness:
  "generate_params
      \<lparr>q_city = Some (lit ''Taipei''), q_country = Some (lit ''Taiwan''), q_theme = None,
       q_distance = Some 8000, q_display_city = None, q_display_country = None,
       q_width = None, q_height = None\<rparr>
     = Inr \<lparr>city = lit ''Taipei'', country = lit ''Taiwan'', theme = lit ''noir'',
            distance = 8000, display_city = None, display_country = None,
            width = 12, height = 16\<rparr>
   \<and> theme \<lparr>city = lit ''Taipei'', country = lit ''Taiwan'', theme = lit ''noir'',
            distance = 8000, display_city = None, display_country = None,
            width = 12, height = 16\<rparr> = lit ''noir''
   \<and> width \<lparr>city = lit ''Taipei'', country = lit ''Taiwan'', theme = lit ''noir'',
            distance = 8000, display_city = None, display_country = None,
            width = 12, height = 16\<rparr> = 12"
  using omitted_parameters_take_defaults
    [of "lit ''Taipei''" "lit ''Taiwan''"
        "\<lparr>q_city = Some (lit ''Taipei''), q_country = Some (lit ''Taiwan''), q_theme = None,
          q_distance = Some 8000, q_display_city = None, q_display_country = None,
          q_width = None, q_height = None\<rparr>"
        "\<lparr>city = lit ''Taipei'', country = lit ''Taiwan'', theme = lit ''noir'',
          distance = 8000, display_city = None, display_country = None,
          width = 12, height = 16\<rparr>"
        "lit ''Taipei''" "lit ''Taiwan''"]
  by (simp add: generate_params_def query_required_def query_int_def query_default_def)

text \<open>
  C6. A /generate request whose distance is outside 1000 to 20000, or whose width is
  outside 6 to 24, or whose height is outside 8 to 32 is rejected by the route: the
  handler does not run, so the log of collaborator calls and the files are as before.
\<close>

theorem out_of_range_rejected_before_handler:
  assumes "(\<exists>d. q_distance q = Some d \<and> (d < 1000 \<or> 20000 < d))
         \<or> (\<exists>w. q_width q = Some w \<and> (w < 6 \<or> 24 < w))
         \<or> (\<exists>h. q_height q = Some h \<and> (h < 8 \<or> 32 < h))"
  shows "\<exists>err. generate_route E q s = (Rejected err, s)"
proof -
  have "\<exists>err. generate_params q = Inl err"
    using assms
    by (auto simp: generate_params_def query_int_def split: sum.splits option.splits)
  then show ?thesis
    by (auto simp: generate_route_def)
qed

theorem out_of_range_rejected_before_handler_witness:
  "generate_route taipei_env
      \<lparr>q_city = Some (lit ''Taipei''), q_country = Some (lit ''Taiwan''), q_theme = None,
       q_distance = Some 500, q_display_city = None, q_display_country = None,
       q_width = None, q_height = None\<rparr> empty_state
   = (Rejected (GreaterThanEqual ''distance'' 1000), empty_state)"
  using out_of_range_rejected_before_handler
    [of "\<lparr>q_city = Some (lit ''Taipei''), q_country = Some (lit ''Taiwan''), q_theme = None,
          q_distance = Some 500, q_display_city = None, q_display_country = None,
          q_width = None, q_height = None\<rparr>" taipei_env empty_state]
  by (simp add: generate_route_def generate_params_def query_required_def query_int_def)

section \<open>The stages of \<^verbatim>\<open>generate_poster\<close>\<close>

text \<open>
  One lemma for each place where the handler can stop: what leaves it, which calls
  were made and which files exist. First lines 83 to 114.
\<close>

lemma image_tempfile_raises:
  assumes "named_temporary_file E (files s) = Inl e"
  shows "generate_image E r coords s = (Inl e, s)"
  using assms by (simp add: generate_image_def)

lemma image_close_raises:
  assumes "named_temporary_file E (files s) = Inr path"
    and "close_fault E path = Some e"
  shows "generate_image E r coords s = (Inl e, s\<lparr>files := (files s)(path \<mapsto> [])\<rparr>)"
  using assms by (simp add: generate_image_def)

lemma image_renderer_raises:
  assumes "named_temporary_file E (files s) = Inr path"
    and "close_fault E path = None"
    and "create_poster E (poster_call_args r coords path) ((files s)(path \<mapsto> [])) = (Some e, fls)"
  shows "generate_image E r coords s =
     (Inl e, \<lparr>files = fls, calls = calls s @ [CreatePoster (poster_call_args r coords path)]\<rparr>)"
  using assms by (simp add: generate_image_def log_call_def Let_def)

lemma image_rendered:
  assumes "named_temporary_file E (files s) = Inr path"
    and "close_fault E path = None"
    and "create_poster E (poster_call_args r coords path) ((files s)(path \<mapsto> [])) = (None, fls)"
  shows "generate_image E r coords s =
     (case read_file E path fls of
        Inl e \<Rightarrow>
          (Inl e, \<lparr>files = fls,
                   calls = calls s @ [CreatePoster (poster_call_args r coords path)]\<rparr>)
      | Inr image_data \<Rightarrow>
          (case unlink E path fls of
             Inl e \<Rightarrow>
               (Inl e, \<lparr>files = fls,
                        calls = calls s @ [CreatePoster (poster_call_args r coords path)]\<rparr>)
           | Inr fls' \<Rightarrow>
               (case new_streaming_response E image_data (lit ''image/png'')
                       [(lit ''Content-Disposition'', content_disposition E r)] of
                  Inl e \<Rightarrow>
                    (Inl e, \<lparr>files = fls',
                             calls = calls s @ [CreatePoster (poster_call_args r coords path)]\<rparr>)
                | Inr resp \<Rightarrow>
                    (Inr resp, \<lparr>files = fls',
                                calls = calls s @ [CreatePoster (poster_call_args r coords path)]\<rparr>))))"
  using assms
  by (simp add: generate_image_def log_call_def Let_def split: sum.splits)

text \<open>Then lines 74 to 80.\<close>

lemma generate_body_theme_raises:
  assumes "load_theme E (theme r) = Inl e"
  shows "generate_body E r s = (Inl e, s\<lparr>calls := calls s @ [LoadTheme (theme r)]\<rparr>)"
  using assms by (simp add: generate_body_def log_call_def)

lemma generate_body_theme_falsy:
  assumes "load_theme E (theme r) = Inr td" and "\<not> truthy td"
  shows "generate_body E r s =
     (Inl (theme_not_found r), s\<lparr>calls := calls s @ [LoadTheme (theme r)]\<rparr>)"
  using assms by (simp add: generate_body_def log_call_def)

lemma generate_body_print_raises:
  assumes "load_theme E (theme r) = Inr td" and "truthy td"
    and "print_fault E (lookup_line r) = Some e"
  shows "generate_body E r s = (Inl e, s\<lparr>calls := calls s @ [LoadTheme (theme r)]\<rparr>)"
  using assms by (simp add: generate_body_def log_call_def)

lemma generate_body_geocoder_raises:
  assumes "load_theme E (theme r) = Inr td" and "truthy td"
    and "print_fault E (lookup_line r) = None"
    and "get_coordinates E (city r) (country r) = Inl e"
  shows "generate_body E r s =
     (Inl e, s\<lparr>calls := calls s @ [LoadTheme (theme r), GetCoordinates (city r) (country r)]\<rparr>)"
  using assms by (simp add: generate_body_def log_call_def)

lemma generate_body_located:
  assumes "load_theme E (theme r) = Inr td" and "truthy td"
    and "print_fault E (lookup_line r) = None"
    and "get_coordinates E (city r) (country r) = Inr coords"
  shows "generate_body E r s =
     generate_image E r coords
       (s\<lparr>calls := calls s @ [LoadTheme (theme r), GetCoordinates (city r) (country r)]\<rparr>)"
  using assms by (simp add: generate_body_def log_call_def)

lemma generate_poster_raised:
  assumes "generate_body E r s = (Inl e, s')"
  shows "generate_poster E r s = (Inl (generate_except E e), s')"
  using assms by (simp add: generate_poster_def)

lemma generate_poster_state: "snd (generate_poster E r s) = snd (generate_body E r s)"
  by (simp add: generate_poster_def split: prod.splits sum.splits)

lemma generate_except_cases:
  "generate_except E e =
     (case e of ValueError m \<Rightarrow> HTTPException 400 m
      | _ \<Rightarrow> HTTPException 500 (lit ''Error generating poster: '' @ str_exn E e))"
  by (simp add: generate_except_def split: exn.splits)

section \<open>The order of the collaborator calls\<close>

text \<open>The calls of lines 83 to 114, and of the whole body, by the outcome of each step.\<close>

lemma generate_image_log:
  "calls (snd (generate_image E r coords s)) =
     calls s @
     (case named_temporary_file E (files s) of
        Inl e \<Rightarrow> []
      | Inr path \<Rightarrow>
          (case close_fault E path of
             Some e \<Rightarrow> []
           | None \<Rightarrow> [CreatePoster (poster_call_args r coords path)]))"
proof (cases "named_temporary_file E (files s)")
  case (Inl e)
  then show ?thesis by (simp add: image_tempfile_raises)
next
  case tmp: (Inr path)
  show ?thesis
  proof (cases "close_fault E path")
    case (Some e)
    with tmp show ?thesis by (simp add: image_close_raises)
  next
    case closed: None
    obtain err fls where
      render: "create_poster E (poster_call_args r coords path) ((files s)(path \<mapsto> []))
                 = (err, fls)"
      by (cases "create_poster E (poster_call_args r coords path) ((files s)(path \<mapsto> []))")
    show ?thesis
    proof (cases err)
      case None
      with tmp closed render show ?thesis
        by (simp add: image_rendered split: sum.splits)
    next
      case (Some e)
      with tmp closed render show ?thesis
        by (simp add: image_renderer_raises)
    qed
  qed
qed

lemma generate_body_log:
  "calls (snd (generate_body E r s)) =
     calls s @
     (case load_theme E (theme r) of
        Inl e \<Rightarrow> [LoadTheme (theme r)]
      | Inr td \<Rightarrow>
          if \<not> truthy td then [LoadTheme (theme r)]
          else (case print_fault E (lookup_line r) of
                  Some e \<Rightarrow> [LoadTheme (theme r)]
                | None \<Rightarrow>
                    (case get_coordinates E (city r) (country r) of
                       Inl e \<Rightarrow> [LoadTheme (theme r), GetCoordinates (city r) (country r)]
                     | Inr coords \<Rightarrow>
                         (case named_temporary_file E (files s) of
                            Inl e \<Rightarrow>
                              [LoadTheme (theme r), GetCoordinates (city r) (country r)]
                          | Inr path \<Rightarrow>
                              (case close_fault E path of
                                 Some e \<Rightarrow>
                                   [LoadTheme (theme r), GetCoordinates (city r) (country r)]
                               | None \<Rightarrow>
                                   [LoadTheme (theme r), GetCoordinates (city r) (country r),
                                    CreatePoster (poster_call_args r coords path)])))))"
proof (cases "load_theme E (theme r)")
  case (Inl e)
  then show ?thesis by (simp add: generate_body_theme_raises)
next
  case theme: (Inr td)
  show ?thesis
  proof (cases "truthy td")
    case False
    with theme show ?thesis by (simp add: generate_body_theme_falsy)
  next
    case True
    show ?thesis
    proof (cases "print_fault E (lookup_line r)")
      case (Some e)
      with theme True show ?thesis by (simp add: generate_body_print_raises)
    next
      case printed: None
      show ?thesis
      proof (cases "get_coordinates E (city r) (country r)")
        case (Inl e)
        with theme True printed show ?thesis by (simp add: generate_body_geocoder_raises)
      next
        case (Inr coords)
        with theme True printed show ?thesis
          by (simp add: generate_body_located generate_image_log
              split: sum.splits option.splits)
      qed
    qed
  qed
qed

lemma new_calls_log:
  assumes "calls s' = calls s @ cs"
  shows "new_calls s s' = cs"
  using assms by (simp add: new_calls_def)

lemma geocoder_called:
  assumes "GetCoordinates c k \<in> set (new_calls s (snd (generate_body E r s)))"
  shows "\<exists>td. load_theme E (theme r) = Inr td \<and> truthy td \<and> print_fault E (lookup_line r) = None"
proof -
  note log = new_calls_log [OF generate_body_log [of E r s]]
  show ?thesis
  proof (cases "load_theme E (theme r)")
    case (Inl e)
    with assms show ?thesis by (simp add: log)
  next
    case theme: (Inr td)
    show ?thesis
    proof (cases "truthy td")
      case False
      with assms theme show ?thesis by (simp add: log)
    next
      case True
      with assms theme show ?thesis
        by (cases "print_fault E (lookup_line r)") (simp_all add: log)
    qed
  qed
qed

text \<open>
  C8. The calls one /generate request adds to the log are, in this order: the theme
  lookup, always; then the geocoder, exactly when the theme lookup gave a descriptor
  (and the log line was printed); then the renderer, exactly when the geocoder gave
  coordinates (and the temporary file was made). So when the theme lookup gives no
  descriptor the only call is the theme lookup, and when geocoding fails the renderer
  is not called.
\<close>

theorem generate_call_order:
  "calls (snd (generate_poster E r s)) = calls s @ new_calls s (snd (generate_poster E r s))
   \<and> new_calls s (snd (generate_poster E r s)) =
       (case load_theme E (theme r) of
          Inl e \<Rightarrow> [LoadTheme (theme r)]
        | Inr td \<Rightarrow>
            if \<not> truthy td then [LoadTheme (theme r)]
            else (case print_fault E (lookup_line r) of
                    Some e \<Rightarrow> [LoadTheme (theme r)]
                  | None \<Rightarrow>
                      (case get_coordinates E (city r) (country r) of
                         Inl e \<Rightarrow> [LoadTheme (theme r), GetCoordinates (city r) (country r)]
                       | Inr coords \<Rightarrow>
                           (case named_temporary_file E (files s) of
                              Inl e \<Rightarrow>
                                [LoadTheme (theme r), GetCoordinates (city r) (country r)]
                            | Inr path \<Rightarrow>
                                (case close_fault E path of
                                   Some e \<Rightarrow>
                                     [LoadTheme (theme r), GetCoordinates (city r) (country r)]
                                 | None \<Rightarrow>
                                     [LoadTheme (theme r), GetCoordinates (city r) (country r),
                                      CreatePoster (poster_call_args r coords path)])))))
   \<and> prefix (map call_name (new_calls s (snd (generate_poster E r s))))
        [''load_theme'', ''get_coordinates'', ''create_poster'']
   \<and> ((\<nexists>td. load_theme E (theme r) = Inr td \<and> truthy td)
         \<longrightarrow> new_calls s (snd (generate_poster E r s)) = [LoadTheme (theme r)])
   \<and> ((\<exists>e. get_coordinates E (city r) (country r) = Inl e)
         \<longrightarrow> (\<forall>a. CreatePoster a \<notin> set (new_calls s (snd (generate_poster E r s)))))
   \<and> ((\<exists>td. load_theme E (theme r) = Inr td \<and> truthy td) \<and> print_fault E (lookup_line r) = None
         \<longrightarrow> take 2 (new_calls s (snd (generate_poster E r s)))
               = [LoadTheme (theme r), GetCoordinates (city r) (country r)])
   \<and> ((\<exists>td. load_theme E (theme r) = Inr td \<and> truthy td) \<and> print_fault E (lookup_line r) = None
        \<and> get_coordinates E (city r) (country r) = Inr coords
        \<and> named_temporary_file E (files s) = Inr path \<and> close_fault E path = None
         \<longrightarrow> new_calls s (snd (generate_poster E r s))
               = [LoadTheme (theme r), GetCoordinates (city r) (country r),
                  CreatePoster (poster_call_args r coords path)])"
proof -
  note log = generate_body_log [of E r s]
  note new = new_calls_log [OF log]
  show ?thesis
  proof (intro conjI impI)
    show "calls (snd (generate_poster E r s)) = calls s @ new_calls s (snd (generate_poster E r s))"
      using log by (simp add: generate_poster_state new)
    show "new_calls s (snd (generate_poster E r s)) =
       (case load_theme E (theme r) of
          Inl e \<Rightarrow> [LoadTheme (theme r)]
        | Inr td \<Rightarrow>
            if \<not> truthy td then [LoadTheme (theme r)]
            else (case print_fault E (lookup_line r) of
                    Some e \<Rightarrow> [LoadTheme (theme r)]
                  | None \<Rightarrow>
                      (case get_coordinates E (city r) (country r) of
                         Inl e \<Rightarrow> [LoadTheme (theme r), GetCoordinates (city r) (country r)]
                       | Inr coords \<Rightarrow>
                           (case named_temporary_file E (files s) of
                              Inl e \<Rightarrow>
                                [LoadTheme (theme r), GetCoordinates (city r) (country r)]
                            | Inr path \<Rightarrow>
                                (case close_fault E path of
                                   Some e \<Rightarrow>
                                     [LoadTheme (theme r), GetCoordinates (city r) (country r)]
                                 | None \<Rightarrow>
                                     [LoadTheme (theme r), GetCoordinates (city r) (country r),
                                      CreatePoster (poster_call_args r coords path)])))))"
      by (simp only: generate_poster_state new)
    show "prefix (map call_name (new_calls s (snd (generate_poster E r s))))
        [''load_theme'', ''get_coordinates'', ''create_poster'']"
      by (simp add: generate_poster_state new split: sum.splits option.splits)
    show "new_calls s (snd (generate_poster E r s)) = [LoadTheme (theme r)]"
      if "\<nexists>td. load_theme E (theme r) = Inr td \<and> truthy td"
      using that by (auto simp: generate_poster_state new split: sum.splits option.splits)
    show "\<forall>a. CreatePoster a \<notin> set (new_calls s (snd (generate_poster E r s)))"
      if "\<exists>e. get_coordinates E (city r) (country r) = Inl e"
      using that by (auto simp: generate_poster_state new split: sum.splits option.splits)
    show "take 2 (new_calls s (snd (generate_poster E r s)))
               = [LoadTheme (theme r), GetCoordinates (city r) (country r)]"
      if "(\<exists>td. load_theme E (theme r) = Inr td \<and> truthy td) \<and> print_fault E (lookup_line r) = None"
      using that by (auto simp: generate_poster_state new split: sum.splits option.splits)
    show "new_calls s (snd (generate_poster E r s))
               = [LoadTheme (theme r), GetCoordinates (city r) (country r),
                  CreatePoster (poster_call_args r coords path)]"
      if "(\<exists>td. load_theme E (theme r) = Inr td \<and> truthy td) \<and> print_fault E (lookup_line r) = None
        \<and> get_coordinates E (city r) (country r) = Inr coords
        \<and> named_temporary_file E (files s) = Inr path \<and> close_fault E path = None"
      using that by (auto simp: generate_poster_state new)
  qed
qed

theorem generate_call_order_witness:
  "new_calls empty_state (snd (generate_poster taipei_env (taipei_request (lit ''noir'')) empty_state))
     = [LoadTheme (lit ''noir''), GetCoordinates (lit ''Taipei'') (lit ''Taiwan''),
        CreatePoster (poster_call_args (taipei_request (lit ''noir'')) (25, 121.5)
                        (lit ''/tmp/tmpa1b2c3.png''))]
   \<and> new_calls empty_state
        (snd (generate_poster taipei_env (taipei_request (lit ''doesnotexist'')) empty_state))
     = [LoadTheme (lit ''doesnotexist'')]
   \<and> (\<forall>a. CreatePoster a \<notin> set (new_calls empty_state (snd (generate_poster taipei_env
          ((taipei_request (lit ''noir''))\<lparr>city := lit ''Nowhere123''\<rparr>) empty_state))))"
proof (intro conjI)
  let ?r = "taipei_request (lit ''noir'')"
  let ?path = "lit ''/tmp/tmpa1b2c3.png''"
  have "(\<exists>td. load_theme taipei_env (theme ?r) = Inr td \<and> truthy td)
        \<and> print_fault taipei_env (lookup_line ?r) = None
        \<and> get_coordinates taipei_env (city ?r) (country ?r) = Inr (25, 121.5)
        \<and> named_temporary_file taipei_env (files empty_state) = Inr ?path
        \<and> close_fault taipei_env ?path = None"
    by (simp add: taipei_env_def taipei_request_def)
  then have "new_calls empty_state (snd (generate_poster taipei_env ?r empty_state))
      = [LoadTheme (theme ?r), GetCoordinates (city ?r) (country ?r),
         CreatePoster (poster_call_args ?r (25, 121.5) ?path)]"
    using generate_call_order [of taipei_env ?r empty_state "(25, 121.5)" ?path] by blast
  then show "new_calls empty_state (snd (generate_poster taipei_env ?r empty_state))
     = [LoadTheme (lit ''noir''), GetCoordinates (lit ''Taipei'') (lit ''Taiwan''),
        CreatePoster (poster_call_args ?r (25, 121.5) ?path)]"
    by (simp add: taipei_request_def)
next
  let ?r = "taipei_request (lit ''doesnotexist'')"
  have "\<nexists>td. load_theme taipei_env (theme ?r) = Inr td \<and> truthy td"
    by (simp add: taipei_env_def taipei_request_def lit_def)
  then have "new_calls empty_state (snd (generate_poster taipei_env ?r empty_state))
      = [LoadTheme (theme ?r)]"
    using generate_call_order [of taipei_env ?r empty_state] by blast
  then show "new_calls empty_state (snd (generate_poster taipei_env ?r empty_state))
     = [LoadTheme (lit ''doesnotexist'')]"
    by (simp add: taipei_request_def)
next
  let ?r = "(taipei_request (lit ''noir''))\<lparr>city := lit ''Nowhere123''\<rparr>"
  have "\<exists>e. get_coordinates taipei_env (city ?r) (country ?r) = Inl e"
    by (simp add: taipei_env_def taipei_request_def lit_def)
  then show "\<forall>a. CreatePoster a \<notin> set (new_calls empty_state
      (snd (generate_poster taipei_env ?r empty_state)))"
    using generate_call_order [of taipei_env ?r empty_state] by blast
qed

section \<open>How \<^verbatim>\<open>generate_poster\<close> reports exceptions\<close>

text \<open>
  C10. Whatever exception a step of the body of \<^verbatim>\<open>generate_poster\<close> raises (the theme
  lookup, the \<^verbatim>\<open>HTTPException\<close> of line 76, \<^verbatim>\<open>print\<close>, the geocoder, the creation and the
  closing of the temporary file, the renderer, reading the file back, removing it,
  the construction of the response), it leaves the body, and the handler reports a
  \<^verbatim>\<open>ValueError\<close> as status 400 with the exception's message as detail and any other
  exception as status 500 with the detail \<^verbatim>\<open>Error generating poster: \<close> followed by the
  exception's message.
\<close>

theorem generate_exceptions_reported:
  assumes "load_theme E (theme r) = Inl e
     \<or> (\<exists>td. load_theme E (theme r) = Inr td \<and> \<not> truthy td \<and> e = theme_not_found r)
     \<or> (\<exists>td. load_theme E (theme r) = Inr td \<and> truthy td \<and>
          (print_fault E (lookup_line r) = Some e
           \<or> print_fault E (lookup_line r) = None \<and>
             (get_coordinates E (city r) (country r) = Inl e
              \<or> (\<exists>coords. get_coordinates E (city r) (country r) = Inr coords \<and>
                   (named_temporary_file E (files s) = Inl e
                    \<or> (\<exists>path. named_temporary_file E (files s) = Inr path \<and>
                         (close_fault E path = Some e
                          \<or> close_fault E path = None \<and>
                            (\<exists>fls. create_poster E (poster_call_args r coords path)
                                     ((files s)(path \<mapsto> [])) = (Some e, fls)
                                 \<or> create_poster E (poster_call_args r coords path)
                                     ((files s)(path \<mapsto> [])) = (None, fls) \<and>
                                   (read_file E path fls = Inl e
                                    \<or> (\<exists>image_data. read_file E path fls = Inr image_data \<and>
                                         (unlink E path fls = Inl e
                                          \<or> (\<exists>fls'. unlink E path fls = Inr fls') \<and>
                                            new_streaming_response E image_data (lit ''image/png'')
                                              [(lit ''Content-Disposition'', content_disposition E r)]
                                              = Inl e)))))))))))"
  shows "\<exists>s'. generate_body E r s = (Inl e, s')
       \<and> generate_poster E r s =
           (Inl (case e of
                   ValueError m \<Rightarrow> HTTPException 400 m
                 | _ \<Rightarrow> HTTPException 500 (lit ''Error generating poster: '' @ str_exn E e)), s')"
proof -
  have "\<exists>s'. generate_body E r s = (Inl e, s')"
    using assms
    by (auto simp: generate_body_theme_raises generate_body_theme_falsy
        generate_body_print_raises generate_body_geocoder_raises generate_body_located
        image_tempfile_raises image_close_raises image_renderer_raises image_rendered)
  then obtain s' where "generate_body E r s = (Inl e, s')" ..
  then show ?thesis
    using generate_poster_raised [of E r s e s'] by (simp add: generate_except_cases)
qed

theorem generate_exceptions_reported_witness:
  "fst (generate_poster taipei_env
          ((taipei_request (lit ''noir''))\<lparr>city := lit ''Nowhere123''\<rparr>) empty_state)
     = Inl (HTTPException 400 (lit ''Could not find coordinates for Nowhere123, Taiwan''))
   \<and> fst (generate_poster failing_renderer_env (taipei_request (lit ''noir'')) empty_state)
     = Inl (HTTPException 500 (lit ''Error generating poster: render failed''))"
proof
  let ?r = "(taipei_request (lit ''noir''))\<lparr>city := lit ''Nowhere123''\<rparr>"
  let ?e = "ValueError (lit ''Could not find coordinates for Nowhere123, Taiwan'')"
  have "\<exists>td. load_theme taipei_env (theme ?r) = Inr td \<and> truthy td \<and>
          print_fault taipei_env (lookup_line ?r) = None \<and>
          get_coordinates taipei_env (city ?r) (country ?r) = Inl ?e"
    by (simp add: taipei_env_def taipei_request_def lit_def)
  then show "fst (generate_poster taipei_env ?r empty_state)
     = Inl (HTTPException 400 (lit ''Could not find coordinates for Nowhere123, Taiwan''))"
    using generate_exceptions_reported [of taipei_env ?r ?e empty_state] by auto
next
  let ?r = "taipei_request (lit ''noir'')"
  let ?e = "OtherException ''RuntimeError'' (lit ''render failed'')"
  let ?td = "PyDict [(lit ''name'', PyStr (lit ''Noir'')),
                     (lit ''description'', PyStr (lit ''Pure black background with white roads''))]"
  let ?path = "lit ''/tmp/tmpa1b2c3.png''"
  have "load_theme failing_renderer_env (theme ?r) = Inr ?td" "truthy ?td"
    and "print_fault failing_renderer_env (lookup_line ?r) = None"
    and "get_coordinates failing_renderer_env (city ?r) (country ?r) = Inr (25, 121.5)"
    and "named_temporary_file failing_renderer_env (files empty_state) = Inr ?path"
    and "close_fault failing_renderer_env ?path = None"
    and "create_poster failing_renderer_env (poster_call_args ?r (25, 121.5) ?path)
               ((files empty_state)(?path \<mapsto> []))
           = (Some ?e, (files empty_state)(?path \<mapsto> []))"
    by (simp_all add: failing_renderer_env_def taipei_env_def taipei_request_def)
  then have "\<exists>td. load_theme failing_renderer_env (theme ?r) = Inr td \<and> truthy td \<and>
     print_fault failing_renderer_env (lookup_line ?r) = None \<and>
     (\<exists>coords. get_coordinates failing_renderer_env (city ?r) (country ?r) = Inr coords
         \<and> (\<exists>path. named_temporary_file failing_renderer_env (files empty_state) = Inr path
              \<and> close_fault failing_renderer_env path = None
              \<and> (\<exists>fls. create_poster failing_renderer_env (poster_call_args ?r coords path)
                   ((files empty_state)(path \<mapsto> [])) = (Some ?e, fls))))"
    by blast
  then have "\<exists>s'. generate_poster failing_renderer_env ?r empty_state =
      (Inl (HTTPException 500 (lit ''Error generating poster: '' @ lit ''render failed'')), s')"
    using generate_exceptions_reported [of failing_renderer_env ?r ?e empty_state] by auto
  then show "fst (generate_poster failing_renderer_env ?r empty_state)
     = Inl (HTTPException 500 (lit ''Error generating poster: render failed''))"
    by (auto simp: lit_def)
qed

section \<open>The stages of \<^verbatim>\<open>preview_poster\<close>\<close>

lemma preview_body_geocoder_raises:
  assumes "get_coordinates E c k = Inl e"
  shows "preview_body E c k t s = (Inl e, s\<lparr>calls := calls s @ [GetCoordinates c k]\<rparr>)"
  using assms by (simp add: preview_body_def log_call_def)

lemma preview_body_theme_raises:
  assumes "get_coordinates E c k = Inr coords" and "load_theme E t = Inl e"
  shows "preview_body E c k t s =
     (Inl e, s\<lparr>calls := calls s @ [GetCoordinates c k, LoadTheme t]\<rparr>)"
  using assms by (simp add: preview_body_def log_call_def)

lemma preview_body_theme_loaded:
  assumes "get_coordinates E c k = Inr coords" and "load_theme E t = Inr td"
  shows "preview_body E c k t s =
     (case get_description td of
        Inl e \<Rightarrow> Inl e
      | Inr d \<Rightarrow>
          Inr (PyDict
            [(lit ''city'', PyStr c),
             (lit ''country'', PyStr k),
             (lit ''coordinates'', PyDict
                [(lit ''latitude'', PyFloat (fst coords)),
                 (lit ''longitude'', PyFloat (snd coords))]),
             (lit ''theme'', PyDict [(lit ''name'', PyStr t), (lit ''description'', d)])]),
      s\<lparr>calls := calls s @ [GetCoordinates c k, LoadTheme t]\<rparr>)"
  using assms by (simp add: preview_body_def log_call_def split: sum.splits)

lemma preview_poster_files: "files (snd (preview_poster E c k t s)) = files s"
  by (simp add: preview_poster_def preview_body_def log_call_def Let_def
      split: sum.splits prod.splits)

lemma preview_poster_calls:
  "new_calls s (snd (preview_poster E c k t s)) =
     (case get_coordinates E c k of
        Inl e \<Rightarrow> [GetCoordinates c k]
      | Inr coords \<Rightarrow> [GetCoordinates c k, LoadTheme t])"
  by (simp add: preview_poster_def preview_body_def log_call_def Let_def new_calls_def
      split: sum.splits prod.splits)

section \<open>Geocoding failures\<close>

text \<open>
  C4. When the geocoder raises a \<^verbatim>\<open>ValueError\<close> for a place, a /generate request for
  that place in which the geocoder is called, and every /preview request for that
  place (the geocoder is its first call), end in status 400 with the geocoder's message
  as detail.
\<close>

theorem geocoder_value_error_is_client_error:
  assumes "get_coordinates E c k = Inl (ValueError m)"
  shows "(city r = c \<and> country r = k
            \<and> GetCoordinates c k \<in> set (new_calls s (snd (generate_poster E r s)))
          \<longrightarrow> fst (generate_poster E r s) = Inl (HTTPException 400 m))
       \<and> GetCoordinates c k \<in> set (new_calls s' (snd (preview_poster E c k t s')))
       \<and> fst (preview_poster E c k t s') = Inl (HTTPException 400 m)"
proof (intro conjI impI)
  assume called: "city r = c \<and> country r = k
      \<and> GetCoordinates c k \<in> set (new_calls s (snd (generate_poster E r s)))"
  then have "\<exists>td. load_theme E (theme r) = Inr td \<and> truthy td
      \<and> print_fault E (lookup_line r) = None"
    using geocoder_called [of c k s E r] by (simp add: generate_poster_state)
  then obtain td where "load_theme E (theme r) = Inr td" "truthy td"
      "print_fault E (lookup_line r) = None"
    by blast
  with assms called have "generate_body E r s =
     (Inl (ValueError m),
      s\<lparr>calls := calls s @ [LoadTheme (theme r), GetCoordinates (city r) (country r)]\<rparr>)"
    by (simp add: generate_body_geocoder_raises)
  then show "fst (generate_poster E r s) = Inl (HTTPException 400 m)"
    by (simp add: generate_poster_def generate_except_def)
next
  show "GetCoordinates c k \<in> set (new_calls s' (snd (preview_poster E c k t s')))"
    by (simp add: preview_poster_calls split: sum.splits)
  show "fst (preview_poster E c k t s') = Inl (HTTPException 400 m)"
    using assms by (simp add: preview_poster_def preview_body_geocoder_raises preview_except_def)
qed

theorem geocoder_value_error_is_client_error_witness:
  "fst (generate_poster taipei_env
          ((taipei_request (lit ''noir''))\<lparr>city := lit ''Nowhere123''\<rparr>) empty_state)
     = Inl (HTTPException 400 (lit ''Could not find coordinates for Nowhere123, Taiwan''))
   \<and> fst (preview_poster taipei_env (lit ''Nowhere123'') (lit ''Taiwan'') (lit ''noir'') empty_state)
     = Inl (HTTPException 400 (lit ''Could not find coordinates for Nowhere123, Taiwan''))"
proof -
  let ?r = "(taipei_request (lit ''noir''))\<lparr>city := lit ''Nowhere123''\<rparr>"
  have raises: "get_coordinates taipei_env (lit ''Nowhere123'') (lit ''Taiwan'')
      = Inl (ValueError (lit ''Could not find coordinates for Nowhere123, Taiwan''))"
    by (simp add: taipei_env_def lit_def)
  have "new_calls empty_state (snd (generate_body taipei_env ?r empty_state))
      = [LoadTheme (theme ?r), GetCoordinates (city ?r) (country ?r)]"
    by (rule new_calls_log, subst generate_body_log)
      (simp add: taipei_env_def taipei_request_def lit_def)
  then have called: "city ?r = lit ''Nowhere123'' \<and> country ?r = lit ''Taiwan''
      \<and> GetCoordinates (lit ''Nowhere123'') (lit ''Taiwan'')
          \<in> set (new_calls empty_state (snd (generate_poster taipei_env ?r empty_state)))"
    by (simp add: generate_poster_state taipei_request_def)
  show ?thesis
    using geocoder_value_error_is_client_error
            [OF raises, of ?r empty_state empty_state "lit ''noir''"] called
    by blast
qed

section \<open>Successful requests\<close>




text \<open>On the path that returns a response, the temporary file is gone again.\<close>

lemma generate_returned_unlinks:
  assumes "load_theme E (theme r) = Inr td" and "truthy td"
    and "print_fault E (lookup_line r) = None"
    and "get_coordinates E (city r) (country r) = Inr coords"
    and "named_temporary_file E (files s) = Inr path"
    and "close_fault E path = None"
    and "create_poster E (poster_call_args r coords path) ((files s)(path \<mapsto> [])) = (None, fls)"
    and "read_file E path fls = Inr image_data"
    and "unlink_fault E path = None"
  shows "files (snd (generate_poster E r s)) path = None"
proof -
  from assms(8) have "fls path = Some image_data"
    by (auto simp: read_file_def split: option.splits)
  with assms(9) have "unlink E path fls = Inr (fls(path := None))"
    by (simp add: unlink_def)
  with assms show ?thesis
    by (simp add: generate_poster_state generate_body_located image_rendered split: sum.splits)
qed




text \<open>
  C7. When the geocoder gives coordinates and the theme lookup gives a dictionary,
  /preview returns the record of city, country, coordinates (latitude the first and
  longitude the second component of the geocoder's pair) and theme (the name asked for
  and the descriptor's description, the empty string when it has none); its only calls
  are the geocoder and the theme lookup. No /preview request changes the files or calls
  the renderer.
\<close>

theorem preview_success_response:
  assumes "get_coordinates E c k = Inr (lat, lon)"
    and "load_theme E t = Inr (PyDict kvs)"
  shows "preview_poster E c k t s =
     (Inr (PyDict
        [(lit ''city'', PyStr c),
         (lit ''country'', PyStr k),
         (lit ''coordinates'', PyDict
            [(lit ''latitude'', PyFloat lat), (lit ''longitude'', PyFloat lon)]),
         (lit ''theme'', PyDict
            [(lit ''name'', PyStr t),
             (lit ''description'',
                case map_of kvs (lit ''description'') of None \<Rightarrow> PyStr [] | Some v \<Rightarrow> v)])]),
      \<lparr>files = files s, calls = calls s @ [GetCoordinates c k, LoadTheme t]\<rparr>)
     \<and> files (snd (preview_poster E c' k' t' s')) = files s'
     \<and> (\<forall>a. CreatePoster a \<notin> set (new_calls s' (snd (preview_poster E c' k' t' s'))))"
proof (intro conjI)
  show "preview_poster E c k t s =
     (Inr (PyDict
        [(lit ''city'', PyStr c),
         (lit ''country'', PyStr k),
         (lit ''coordinates'', PyDict
            [(lit ''latitude'', PyFloat lat), (lit ''longitude'', PyFloat lon)]),
         (lit ''theme'', PyDict
            [(lit ''name'', PyStr t),
             (lit ''description'',
                case map_of kvs (lit ''description'') of None \<Rightarrow> PyStr [] | Some v \<Rightarrow> v)])]),
      \<lparr>files = files s, calls = calls s @ [GetCoordinates c k, LoadTheme t]\<rparr>)"
    using assms
    by (simp add: preview_poster_def preview_body_theme_loaded get_description_def)
  show "files (snd (preview_poster E c' k' t' s')) = files s'"
    by (rule preview_poster_files)
  show "\<forall>a. CreatePoster a \<notin> set (new_calls s' (snd (preview_poster E c' k' t' s')))"
    by (simp add: preview_poster_calls split: sum.splits)
qed

theorem preview_success_response_witness:
  "preview_poster taipei_env (lit ''Taipei'') (lit ''Taiwan'') (lit ''noir'') empty_state =
     (Inr (PyDict
        [(lit ''city'', PyStr (lit ''Taipei'')),
         (lit ''country'', PyStr (lit ''Taiwan'')),
         (lit ''coordinates'', PyDict
            [(lit ''latitude'', PyFloat 25), (lit ''longitude'', PyFloat 121.5)]),
         (lit ''theme'', PyDict
            [(lit ''name'', PyStr (lit ''noir'')),
             (lit ''description'', PyStr (lit ''Pure black background with white roads''))])]),
      \<lparr>files = Map.empty,
       calls = [GetCoordinates (lit ''Taipei'') (lit ''Taiwan''), LoadTheme (lit ''noir'')]\<rparr>)"
proof -
  have 1: "get_coordinates taipei_env (lit ''Taipei'') (lit ''Taiwan'') = Inr (25, 121.5)"
    and 2: "load_theme taipei_env (lit ''noir'') =
       Inr (PyDict [(lit ''name'', PyStr (lit ''Noir'')),
                    (lit ''description'',
                       PyStr (lit ''Pure black background with white roads''))])"
    by (simp_all add: taipei_env_def)
  have "map_of [(lit ''name'', PyStr (lit ''Noir'')),
                (lit ''description'', PyStr (lit ''Pure black background with white roads''))]
          (lit ''description'')
      = Some (PyStr (lit ''Pure black background with white roads''))"
    by (simp add: lit_def)
  then show ?thesis
    using preview_success_response [OF 1 2, of empty_state]
    by (simp add: empty_state_def)
qed

section \<open>Unknown themes and failed renders\<close>

text \<open>
  C1. The theme store returns \<^verbatim>\<open>None\<close> for the theme \<^verbatim>\<open>doesnotexist\<close>. The body of
  \<^verbatim>\<open>generate_poster\<close> raises the \<^verbatim>\<open>HTTPException\<close> with status 400 of line 76; it is not a
  \<^verbatim>\<open>ValueError\<close>, so the handler of line 118 takes it and the request ends with status
  500, not 400.
\<close>

theorem generate_unknown_theme_is_server_error:
  "generate_poster taipei_env (taipei_request (lit ''doesnotexist'')) empty_state =
     (Inl (HTTPException 500
             (lit ''Error generating poster: 400: Theme 'doesnotexist' not found'')),
      \<lparr>files = Map.empty, calls = [LoadTheme (lit ''doesnotexist'')]\<rparr>)"
proof -
  let ?r = "taipei_request (lit ''doesnotexist'')"
  have "load_theme taipei_env (theme ?r) = Inr PyNone"
    by (simp add: taipei_env_def taipei_request_def lit_def)
  then have "generate_body taipei_env ?r empty_state =
     (Inl (theme_not_found ?r), \<lparr>files = Map.empty, calls = [LoadTheme (lit ''doesnotexist'')]\<rparr>)"
    by (simp add: generate_body_theme_falsy taipei_request_def empty_state_def)
  moreover have "theme_not_found ?r = HTTPException 400 (lit ''Theme 'doesnotexist' not found'')"
    by (simp add: theme_not_found_def taipei_request_def lit_def)
  moreover have "lit ''Error generating poster: ''
        @ str_nat 400 @ lit '': '' @ lit ''Theme 'doesnotexist' not found''
      = lit ''Error generating poster: 400: Theme 'doesnotexist' not found''"
    by (simp add: str_nat.simps lit_def)
  ultimately show ?thesis
    by (simp add: generate_poster_def generate_except_def taipei_env_def)
qed

text \<open>
  C2. The renderer raises. The temporary file, which did not exist before the request
  and was created by it, still exists when \<^verbatim>\<open>generate_poster\<close> is left: \<^verbatim>\<open>os.unlink\<close> is
  reached only on the path that returns the image.
\<close>

theorem failed_render_leaves_temporary_file:
  "files empty_state (lit ''/tmp/tmpa1b2c3.png'') = None
   \<and> generate_poster failing_renderer_env (taipei_request (lit ''noir'')) empty_state =
       (Inl (HTTPException 500 (lit ''Error generating poster: render failed'')),
        \<lparr>files = [lit ''/tmp/tmpa1b2c3.png'' \<mapsto> []],
         calls = [LoadTheme (lit ''noir''), GetCoordinates (lit ''Taipei'') (lit ''Taiwan''),
                  CreatePoster (poster_call_args (taipei_request (lit ''noir'')) (25, 121.5)
                                  (lit ''/tmp/tmpa1b2c3.png''))]\<rparr>)
   \<and> files (snd (generate_poster failing_renderer_env (taipei_request (lit ''noir'')) empty_state))
        (lit ''/tmp/tmpa1b2c3.png'') = Some []"
proof -
  let ?r = "taipei_request (lit ''noir'')"
  let ?td = "PyDict [(lit ''name'', PyStr (lit ''Noir'')),
                     (lit ''description'', PyStr (lit ''Pure black background with white roads''))]"
  let ?path = "lit ''/tmp/tmpa1b2c3.png''"
  let ?e = "OtherException ''RuntimeError'' (lit ''render failed'')"
  let ?s2 = "empty_state\<lparr>calls := calls empty_state
      @ [LoadTheme (theme ?r), GetCoordinates (city ?r) (country ?r)]\<rparr>"
  have 1: "load_theme failing_renderer_env (theme ?r) = Inr ?td" and 2: "truthy ?td"
    and 3: "print_fault failing_renderer_env (lookup_line ?r) = None"
    and 4: "get_coordinates failing_renderer_env (city ?r) (country ?r) = Inr (25, 121.5)"
    and 5: "named_temporary_file failing_renderer_env (files ?s2) = Inr ?path"
    and 6: "close_fault failing_renderer_env ?path = None"
    and 7: "create_poster failing_renderer_env (poster_call_args ?r (25, 121.5) ?path)
               ((files ?s2)(?path \<mapsto> []))
             = (Some ?e, (files ?s2)(?path \<mapsto> []))"
    by (simp_all add: failing_renderer_env_def taipei_env_def taipei_request_def)
  have "generate_body failing_renderer_env ?r empty_state =
      generate_image failing_renderer_env ?r (25, 121.5) ?s2"
    using 1 2 3 4 by (rule generate_body_located)
  also have "\<dots> = (Inl ?e, \<lparr>files = (files ?s2)(?path \<mapsto> []),
      calls = calls ?s2 @ [CreatePoster (poster_call_args ?r (25, 121.5) ?path)]\<rparr>)"
    using 5 6 7 by (rule image_renderer_raises)
  finally have "generate_poster failing_renderer_env ?r empty_state =
       (Inl (HTTPException 500 (lit ''Error generating poster: '' @ lit ''render failed'')),
        \<lparr>files = [?path \<mapsto> []],
         calls = [LoadTheme (lit ''noir''), GetCoordinates (lit ''Taipei'') (lit ''Taiwan''),
                  CreatePoster (poster_call_args ?r (25, 121.5) ?path)]\<rparr>)"
    by (simp add: generate_poster_def generate_except_def empty_state_def taipei_request_def)
  moreover have "lit ''Error generating poster: '' @ lit ''render failed''
      = lit ''Error generating poster: render failed''"
    by (simp add: lit_def)
  ultimately show ?thesis
    by (simp add: empty_state_def)
qed

text \<open>
  C3. The theme store returns \<^verbatim>\<open>None\<close> for the theme \<^verbatim>\<open>doesnotexist\<close>. \<^verbatim>\<open>preview_poster\<close>
  does not test the descriptor: it calls \<^verbatim>\<open>.get\<close> on \<^verbatim>\<open>None\<close>, and the \<^verbatim>\<open>AttributeError\<close>
  leaves the function, since its only handler is for \<^verbatim>\<open>ValueError\<close>.
\<close>

theorem preview_unknown_theme_is_attribute_error:
  "preview_poster taipei_env (lit ''Taipei'') (lit ''Taiwan'') (lit ''doesnotexist'') empty_state =
     (Inl (OtherException ''AttributeError''
             (lit (CHR 0x27 # ''NoneType' object has no attribute 'get'' @ [CHR 0x27]))),
      \<lparr>files = Map.empty,
       calls = [GetCoordinates (lit ''Taipei'') (lit ''Taiwan''),
                LoadTheme (lit ''doesnotexist'')]\<rparr>)"
proof -
  have 1: "get_coordinates taipei_env (lit ''Taipei'') (lit ''Taiwan'') = Inr (25, 121.5)"
    and 2: "load_theme taipei_env (lit ''doesnotexist'') = Inr PyNone"
    by (simp_all add: taipei_env_def lit_def)
  have "[39] @ lit (type_name PyNone) @ [39] @ lit '' object has no attribute ''
          @ [39] @ lit ''get'' @ [39]
      = lit (CHR 0x27 # ''NoneType' object has no attribute 'get'' @ [CHR 0x27])"
    by (simp add: lit_def)
  then show ?thesis
    using preview_body_theme_loaded [OF 1 2, of empty_state]
    by (simp add: preview_poster_def preview_except_def get_description_def empty_state_def)
qed

end
